theory Spec2Isabelle
  imports Complex_Main
begin

section \<open>Values and errors\<close>

text \<open>
  Tensor entries are floating-point numbers.  They are modelled as real numbers
  extended with the three special values that the convolution has to deal with:
  plus and minus infinity and not-a-number.  Rounding is not modelled.
\<close>

datatype fl = Fin real | PInf | NInf | NaN

text \<open>The exceptions that the modelled code can raise.\<close>

datatype error =
    IndexOutOfRange
  | ShapeMismatch
  | TypeError
  | AttributeError
  | ValueError
  | FileNotFound
  | ZeroDivisionError

fun fl_add :: "fl \<Rightarrow> fl \<Rightarrow> fl" where
  "fl_add (Fin a) (Fin b) = Fin (a + b)"
| "fl_add NaN _ = NaN"
| "fl_add _ NaN = NaN"
| "fl_add PInf NInf = NaN"
| "fl_add NInf PInf = NaN"
| "fl_add PInf _ = PInf"
| "fl_add _ PInf = PInf"
| "fl_add NInf _ = NInf"
| "fl_add _ NInf = NInf"

fun fl_mul :: "fl \<Rightarrow> fl \<Rightarrow> fl" where
  "fl_mul (Fin a) (Fin b) = Fin (a * b)"
| "fl_mul NaN _ = NaN"
| "fl_mul _ NaN = NaN"
| "fl_mul (Fin a) PInf = (if a = 0 then NaN else if 0 < a then PInf else NInf)"
| "fl_mul (Fin a) NInf = (if a = 0 then NaN else if 0 < a then NInf else PInf)"
| "fl_mul PInf (Fin b) = (if b = 0 then NaN else if 0 < b then PInf else NInf)"
| "fl_mul NInf (Fin b) = (if b = 0 then NaN else if 0 < b then NInf else PInf)"
| "fl_mul PInf PInf = PInf"
| "fl_mul PInf NInf = NInf"
| "fl_mul NInf PInf = NInf"
| "fl_mul NInf NInf = PInf"

text \<open>\<open>t.pow(-0.5)\<close>, entry by entry: zero goes to plus infinity.\<close>

fun pow_neg_half :: "fl \<Rightarrow> fl" where
  "pow_neg_half (Fin a) =
     (if a = 0 then PInf else if 0 < a then Fin (1 / sqrt a) else NaN)"
| "pow_neg_half PInf = Fin 0"
| "pow_neg_half NInf = Fin 0"
| "pow_neg_half NaN = NaN"

text \<open>\<open>t[t == float('inf')] = 0\<close>, entry by entry.\<close>

definition mask_inf :: "fl \<Rightarrow> fl" where
  "mask_inf v = (if v = PInf then Fin 0 else v)"

section \<open>Tensors\<close>

text \<open>
  A two-dimensional tensor keeps its number of columns even when it has no row;
  \<open>size0\<close> is \<open>t.size(0)\<close>.  An edge index is a tensor of shape \<open>[2, E]\<close>, kept
  as the list of its \<open>E\<close> columns; its two rows are \<open>from_\<close> and \<open>to_\<close> in the source
  (\<open>from_row\<close> and \<open>to_row\<close> here).
\<close>

record tensor2 =
  width :: nat
  rows :: "fl list list"

definition size0 :: "tensor2 \<Rightarrow> nat" where
  "size0 t = length (rows t)"

definition wf_tensor2 :: "tensor2 \<Rightarrow> bool" where
  "wf_tensor2 t = list_all (\<lambda>r. length r = width t) (rows t)"

type_synonym edge_index = "(int \<times> int) list"

definition row0 :: "edge_index \<Rightarrow> int list" where
  "row0 ei = map fst ei"

definition row1 :: "edge_index \<Rightarrow> int list" where
  "row1 ei = map snd ei"

text \<open>\<open>edge_index.flip(0)\<close> exchanges the two rows.\<close>

definition flip0 :: "edge_index \<Rightarrow> edge_index" where
  "flip0 ei = map (\<lambda>e. (snd e, fst e)) ei"

definition in_range :: "nat \<Rightarrow> int \<Rightarrow> bool" where
  "in_range n i = (0 \<le> i \<and> i < int n)"

text \<open>
  \<open>out.scatter_add_(0, index, src)\<close> of the tensor library: for each position
  \<open>k\<close>, in order, \<open>out[index[k]] += src[k]\<close>.  An index outside \<open>out\<close> raises,
  and so does an index tensor longer than \<open>src\<close>.  The addition is a parameter,
  so that the same function serves vectors of numbers and of rows.
\<close>

fun scatter_add :: "('a \<Rightarrow> 'a \<Rightarrow> 'a) \<Rightarrow> 'a list \<Rightarrow> int list \<Rightarrow> 'a list \<Rightarrow> error + 'a list" where
  "scatter_add add out [] src = Inr out"
| "scatter_add add out (i # idx) [] = Inl ShapeMismatch"
| "scatter_add add out (i # idx) (s # src) =
     (if in_range (length out) i
      then scatter_add add (out[nat i := add (out ! nat i) s]) idx src
      else Inl IndexOutOfRange)"

text \<open>
  \<open>degree(index, num_nodes, dtype)\<close> of the graph library: a vector of
  \<open>num_nodes\<close> zeros to which a one is scatter-added for every index.
\<close>

definition degree :: "int list \<Rightarrow> nat \<Rightarrow> error + fl list" where
  "degree index num_nodes =
     scatter_add fl_add (replicate num_nodes (Fin 0)) index
       (replicate (length index) (Fin 1))"

text \<open>
  Advanced indexing \<open>t[index]\<close> of a vector by an index tensor: negative
  indices count from the end, anything else out of range raises.
\<close>

definition index_vec :: "'a list \<Rightarrow> int list \<Rightarrow> error + 'a list" where
  "index_vec t index =
     (if list_all (\<lambda>i. - int (length t) \<le> i \<and> i < int (length t)) index
      then Inr (map (\<lambda>i. t ! nat (if i < 0 then int (length t) + i else i)) index)
      else Inl IndexOutOfRange)"

section \<open>BipartiteLightGCN\<close>

text \<open>
  Lines 14 to 32 of \<open>forward\<close>: the per-edge normalization \<open>norm\<close>, from the
  sizes of the two feature matrices and the edge index.
\<close>

definition inv_sqrt_masked :: "fl list \<Rightarrow> fl list" where
  "inv_sqrt_masked deg = map mask_inf (map pow_neg_half deg)"

definition forward_norm :: "nat \<Rightarrow> nat \<Rightarrow> edge_index \<Rightarrow> error + fl list" where
  "forward_norm nx ny edge_index =
     (let from_row = row0 edge_index; to_row = row1 edge_index in
      (case degree from_row nx of Inl e \<Rightarrow> Inl e | Inr deg_x \<Rightarrow>
      (case degree to_row ny of Inl e \<Rightarrow> Inl e | Inr deg_y \<Rightarrow>
      (let deg_x_inv_sqrt = inv_sqrt_masked deg_x;
           deg_y_inv_sqrt = inv_sqrt_masked deg_y
       in
      (case index_vec deg_x_inv_sqrt from_row of Inl e \<Rightarrow> Inl e | Inr norm_x \<Rightarrow>
      (case index_vec deg_y_inv_sqrt to_row of Inl e \<Rightarrow> Inl e | Inr norm_y \<Rightarrow>
       Inr (map2 fl_mul norm_x norm_y)))))))"

text \<open>
  \<open>message\<close>: \<open>norm.view(-1, 1) * x_j\<close>, the row of each edge scaled by the
  edge's factor.  \<open>update\<close> returns the aggregate as it is.  The source's
  \<open>norm\<close> and \<open>size\<close> are \<open>nrm\<close> and \<open>sz\<close> here.
\<close>

definition message :: "fl list list \<Rightarrow> fl list \<Rightarrow> fl list list" where
  "message x_j nrm = map2 (\<lambda>w v. map (fl_mul w) v) nrm x_j"

definition update :: "tensor2 \<Rightarrow> tensor2" where
  "update aggr_out = aggr_out"

text \<open>
  \<open>propagate\<close> of the graph library's message-passing base class, for the
  aggregation \<open>add\<close> that \<open>__init__\<close> selects: the sizes are checked against the
  two feature matrices, \<open>x_j\<close> is the source matrix selected by the first row of
  the edge index (\<open>index_select\<close>, which raises out of range), the messages are
  scatter-added by the second row into \<open>size[1]\<close> rows of zeros, and the result
  goes through \<open>update\<close>.
\<close>

definition index_select :: "tensor2 \<Rightarrow> int list \<Rightarrow> error + fl list list" where
  "index_select t index =
     (if list_all (in_range (size0 t)) index
      then Inr (map (\<lambda>i. rows t ! nat i) index)
      else Inl IndexOutOfRange)"

definition vec_add :: "fl list \<Rightarrow> fl list \<Rightarrow> fl list" where
  "vec_add u v = map2 fl_add u v"

definition propagate ::
  "edge_index \<Rightarrow> nat \<times> nat \<Rightarrow> tensor2 \<times> tensor2 \<Rightarrow> fl list \<Rightarrow> error + tensor2" where
  "propagate edge_index sz x nrm =
     (if size0 (fst x) \<noteq> fst sz \<or> size0 (snd x) \<noteq> snd sz then Inl ValueError
      else
        (case index_select (fst x) (row0 edge_index) of Inl e \<Rightarrow> Inl e | Inr x_j \<Rightarrow>
        (case scatter_add vec_add
                (replicate (snd sz) (replicate (width (fst x)) (Fin 0)))
                (row1 edge_index) (message x_j nrm)
         of Inl e \<Rightarrow> Inl e
          | Inr out \<Rightarrow> Inr (update \<lparr>width = width (fst x), rows = out\<rparr>))))"

text \<open>\<open>forward\<close> returns the pair \<open>(y2x, x2y)\<close>.\<close>

definition forward :: "tensor2 \<Rightarrow> tensor2 \<Rightarrow> edge_index \<Rightarrow> error + tensor2 \<times> tensor2" where
  "forward x y edge_index =
     (case forward_norm (size0 x) (size0 y) edge_index of Inl e \<Rightarrow> Inl e | Inr nrm \<Rightarrow>
     (case propagate edge_index (size0 x, size0 y) (x, y) nrm
      of Inl e \<Rightarrow> Inl e | Inr x2y \<Rightarrow>
     (case propagate (flip0 edge_index) (size0 y, size0 x) (y, x) nrm
      of Inl e \<Rightarrow> Inl e | Inr y2x \<Rightarrow> Inr (y2x, x2y))))"


text \<open>
  The degree of an endpoint, in the words of the specification: the number of
  edges of the bipartite graph that have the node at that end, that is, the
  number of occurrences of the node in the corresponding row of the edge index.
\<close>

definition endpoint_degree :: "int list \<Rightarrow> int \<Rightarrow> nat" where
  "endpoint_degree index v = length (filter (\<lambda>i. i = v) index)"

definition edge_factor :: "edge_index \<Rightarrow> int \<times> int \<Rightarrow> real" where
  "edge_factor ei e =
     1 / sqrt (real (endpoint_degree (row0 ei) (fst e)) * real (endpoint_degree (row1 ei) (snd e)))"

text \<open>
  The aggregate of a destination node, in the words of the specification: the
  sum, over the edges \<open>(i, j)\<close> that arrive at destination \<open>j\<close>, of the edge's
  weight times the feature vector of the source \<open>i\<close>; here column \<open>c\<close> of it.
  For the reverse pass the edges are flipped, so that the second component is
  again the destination.
\<close>

definition fl_sum :: "fl list \<Rightarrow> fl" where
  "fl_sum vs = foldl fl_add (Fin 0) vs"

definition aggregated :: "fl list \<Rightarrow> edge_index \<Rightarrow> tensor2 \<Rightarrow> nat \<Rightarrow> nat \<Rightarrow> fl" where
  "aggregated weights ei feat j c =
     fl_sum (map (\<lambda>(w, e). fl_mul w (rows feat ! nat (fst e) ! c))
               (filter (\<lambda>(w, e). snd e = int j) (zip weights ei)))"

text \<open>The rows that \<open>propagate\<close> produces, in closed form (used in the proofs).\<close>

definition prop_rows :: "edge_index \<Rightarrow> tensor2 \<Rightarrow> nat \<Rightarrow> fl list \<Rightarrow> fl list list" where
  "prop_rows ei xs n_dst nrm =
     map (\<lambda>j. foldl vec_add (replicate (width xs) (Fin 0))
            (map snd (filter (\<lambda>p. fst p = int j)
               (zip (row1 ei) (message (map (\<lambda>i. rows xs ! nat i) (row0 ei)) nrm)))))
       [0..<n_dst]"


section \<open>remove\_label\_edges\<close>

text \<open>
  The store of one edge type of a heterogeneous batch: the attributes that
  \<open>remove_label_edges\<close> reads or writes are fields, every other attribute of
  the store is in the record's extension.  An attribute that the store does not
  have is \<open>None\<close>.  The batch holds the store of the edge type
  \<open>(movie, ratedby, user)\<close>; its other stores are in its extension.
\<close>

record ('p, 'r, 'w, 'i) edge_store =
  edge_index :: edge_index
  edge_label_index :: edge_index
  pos :: "'p list option"
  rating :: "'r list option"
  weight :: "'w list option"
  e_id :: "'i list option"

record ('p, 'r, 'w, 'i, 's) hetero_batch =
  movie_ratedby_user :: "('p, 'r, 'w, 'i, 's) edge_store_scheme"

text \<open>
  \<open>(edges == edge_label_set).all(dim=2)\<close>: the two operands broadcast to shape
  \<open>[n, m, 2]\<close>, so row \<open>l\<close> of the result says, for each of the \<open>m\<close> edges,
  whether both of its entries equal those of labelled edge \<open>l\<close>.
\<close>

definition matches_all :: "edge_index \<Rightarrow> edge_index \<Rightarrow> bool list list" where
  "matches_all edges edge_label_set =
     map (\<lambda>l. map (\<lambda>e. fst e = fst l \<and> snd e = snd l) edges) edge_label_set"

text \<open>\<open>~matches.any(dim=0)\<close>, a vector of \<open>m\<close> truth values.\<close>

definition not_any0 :: "nat \<Rightarrow> bool list list \<Rightarrow> bool list" where
  "not_any0 m matches = map (\<lambda>k. \<not> list_ex (\<lambda>row. row ! k) matches) [0..<m]"

text \<open>
  Indexing by a Boolean mask, \<open>t[mask]\<close> (and \<open>t[:, mask]\<close> for the edge index):
  the entries where the mask holds; a mask of another length raises.  The
  source's \<open>mask\<close> is \<open>msk\<close> here.
\<close>

definition mask_select :: "bool list \<Rightarrow> 'a list \<Rightarrow> error + 'a list" where
  "mask_select msk t =
     (if length msk = length t then Inr (map snd (filter fst (zip msk t)))
      else Inl IndexOutOfRange)"

text \<open>An optional attribute (\<open>getattr(store, name, None) is not None\<close>).\<close>

definition mask_optional :: "bool list \<Rightarrow> 'a list option \<Rightarrow> error + 'a list option" where
  "mask_optional msk a =
     (case a of None \<Rightarrow> Inr None
      | Some t \<Rightarrow> (case mask_select msk t of Inl e \<Rightarrow> Inl e | Inr t' \<Rightarrow> Inr (Some t')))"

text \<open>A required attribute: reading it from a store that lacks it raises.\<close>

definition mask_required :: "bool list \<Rightarrow> 'a list option \<Rightarrow> error + 'a list option" where
  "mask_required msk a =
     (case a of None \<Rightarrow> Inl AttributeError
      | Some t \<Rightarrow> (case mask_select msk t of Inl e \<Rightarrow> Inl e | Inr t' \<Rightarrow> Inr (Some t')))"

definition remove_label_edges ::
  "('p, 'r, 'w, 'i, 's, 'b) hetero_batch_scheme
     \<Rightarrow> error + ('p, 'r, 'w, 'i, 's, 'b) hetero_batch_scheme" where
  "remove_label_edges batch =
     (let movie_user_edge = movie_ratedby_user batch;
          edges = edge_index movie_user_edge;
          edge_label_set = edge_label_index movie_user_edge;
          matches = matches_all edges edge_label_set;
          msk = not_any0 (length edges) matches
      in
      (case mask_select msk edges of Inl e \<Rightarrow> Inl e | Inr edge_index' \<Rightarrow>
      (case mask_optional msk (pos movie_user_edge) of Inl e \<Rightarrow> Inl e | Inr pos' \<Rightarrow>
      (case mask_required msk (rating movie_user_edge) of Inl e \<Rightarrow> Inl e | Inr rating' \<Rightarrow>
      (case mask_optional msk (weight movie_user_edge) of Inl e \<Rightarrow> Inl e | Inr weight' \<Rightarrow>
      (case mask_required msk (e_id movie_user_edge) of Inl e \<Rightarrow> Inl e | Inr e_id' \<Rightarrow>
       Inr (batch\<lparr>movie_ratedby_user :=
              movie_user_edge\<lparr>edge_index := edge_index', pos := pos', rating := rating',
                               weight := weight', e_id := e_id'\<rparr>\<rparr>)))))))"

text \<open>
  In the words of the claim: the entries of a per-edge attribute that belong to
  the edges that match no labelled edge.
\<close>

definition kept_attr :: "edge_index \<Rightarrow> edge_index \<Rightarrow> 'a list \<Rightarrow> 'a list" where
  "kept_attr edges labelled t =
     map snd (filter (\<lambda>(e, a). e \<notin> set labelled) (zip edges t))"

definition aligned :: "nat \<Rightarrow> 'a list option \<Rightarrow> bool" where
  "aligned m a = (case a of None \<Rightarrow> True | Some t \<Rightarrow> length t = m)"

text \<open>A batch with three edges, one of which is labelled.\<close>

definition example_batch :: "(int, int, int, int, string, string) hetero_batch_scheme" where
  "example_batch =
     \<lparr>movie_ratedby_user =
        \<lparr>edge_index = [(0, 0), (1, 0), (1, 1)], edge_label_index = [(1, 0), (5, 5)],
         pos = None, rating = Some [3, 4, 5], weight = Some [7, 8, 9],
         e_id = Some [10, 11, 12], \<dots> = ''edge_label''\<rparr>,
      \<dots> = ''other stores''\<rparr>"


section \<open>HeteroLightGCN\<close>

text \<open>
  What a call of a model can return to \<open>train_step\<close>: nothing (\<open>None\<close>), a
  zero-dimensional tensor, or a tuple.
\<close>

datatype pyval = PyNone | PyTensor fl | PyTuple "pyval list"

text \<open>
  \<open>HeteroLightGCN.forward(self, data)\<close>: the body is a bare \<open>return\<close>.  Calling
  the model, \<open>model(batch)\<close>, returns what \<open>forward\<close> returns.
\<close>

definition HeteroLightGCN_forward :: "'m \<Rightarrow> 'b \<Rightarrow> pyval" where
  "HeteroLightGCN_forward self data = PyNone"

section \<open>Checkpoints and configuration files\<close>

type_synonym path = string

text \<open>
  Models, optimizers, schedulers, scalers, datasets, batches and the sections of
  the configuration that only the libraries read are opaque objects of a type
  \<open>'a\<close>.  The training section of the configuration has the optimizer's
  description, the optional scheduler's, the optional \<open>amp\<close> flag and the number
  of epochs.
\<close>

record 'a train_config =
  tc_optimizer :: 'a
  tc_scheduler :: "'a option"
  tc_amp :: "bool option"
  tc_epochs :: int

record 'a config =
  cfg_data :: 'a
  cfg_model :: 'a
  cfg_train :: "'a train_config"
  cfg_logdir :: path

text \<open>
  The dictionary that \<open>save_checkpoint\<close> builds has fourteen fixed keys; it is a
  record with one field per key (\<open>ck_model\<close> for the key \<open>"model"\<close>, and so on).
\<close>

record 'a checkpoint =
  ck_model :: 'a
  ck_optimizer :: 'a
  ck_scheduler :: "'a option"
  ck_scaler :: "'a option"
  ck_epoch :: int
  ck_end_epoch :: int
  ck_train_loss :: fl
  ck_val_loss :: fl
  ck_val_acc :: fl
  ck_val_f1 :: "(int \<times> fl) list"
  ck_config :: "'a config"
  ck_log_dir :: path
  ck_train_losses :: "fl list"
  ck_val_losses :: "fl list"

text \<open>
  The files that the program reads and writes: configuration files, checkpoint
  files (with the sequence of all \<open>torch.save\<close> calls, oldest first), loss plots,
  and the scalars sent to the summary writer.
\<close>

datatype tag = TrainLoss | ValidationLoss | ValidationAccuracy | ValidationF1Class int
  | ValidationF1Average

record 'a world =
  configs :: "path \<rightharpoonup> 'a config"
  ckpts :: "path \<rightharpoonup> 'a checkpoint"
  saves :: "(path \<times> 'a checkpoint) list"
  plots :: "path \<rightharpoonup> fl list \<times> fl list"
  scalars :: "(path \<times> tag \<times> fl \<times> int) list"

text \<open>
  \<open>load_config\<close>: the parsed content of the file at \<open>path\<close>; a missing file
  raises.
\<close>

definition load_config :: "'a world \<Rightarrow> path \<Rightarrow> error + 'a config" where
  "load_config w path =
     (case configs w path of None \<Rightarrow> Inl FileNotFound | Some config_yaml \<Rightarrow> Inr config_yaml)"

text \<open>
  \<open>torch.save(obj, path)\<close> and \<open>torch.load(path)\<close> of the tensor library: the file
  at \<open>path\<close> holds the serialized object, and loading gives back an equal object;
  loading a missing file raises.
\<close>

definition torch_save :: "'a checkpoint \<Rightarrow> path \<Rightarrow> 'a world \<Rightarrow> 'a world" where
  "torch_save obj path w = w\<lparr>ckpts := (ckpts w)(path \<mapsto> obj), saves := saves w @ [(path, obj)]\<rparr>"

definition torch_load :: "'a world \<Rightarrow> path \<Rightarrow> error + 'a checkpoint" where
  "torch_load w path =
     (case ckpts w path of None \<Rightarrow> Inl FileNotFound | Some obj \<Rightarrow> Inr obj)"

definition save_checkpoint ::
  "'a \<Rightarrow> 'a \<Rightarrow> 'a option \<Rightarrow> 'a option \<Rightarrow> int \<Rightarrow> int \<Rightarrow> fl \<Rightarrow> fl \<Rightarrow> fl \<Rightarrow> (int \<times> fl) list
     \<Rightarrow> path \<Rightarrow> 'a config \<Rightarrow> path \<Rightarrow> fl list \<Rightarrow> fl list \<Rightarrow> 'a world \<Rightarrow> 'a world" where
  "save_checkpoint model optimizer scheduler scaler epoch end_epoch train_loss val_loss
       val_acc val_f1 model_path config log_dir train_losses val_losses w =
     (let checkpoint =
        \<lparr>ck_model = model, ck_optimizer = optimizer, ck_scheduler = scheduler,
         ck_scaler = scaler, ck_epoch = epoch, ck_end_epoch = end_epoch,
         ck_train_loss = train_loss, ck_val_loss = val_loss, ck_val_acc = val_acc,
         ck_val_f1 = val_f1, ck_config = config, ck_log_dir = log_dir,
         ck_train_losses = train_losses, ck_val_losses = val_losses\<rparr>
      in torch_save checkpoint model_path w)"

definition load_checkpoint :: "'a world \<Rightarrow> path \<Rightarrow> error + 'a checkpoint" where
  "load_checkpoint w save_path = torch_load w save_path"

section \<open>The training program\<close>

text \<open>
  Division and comparison of floating-point numbers, for the running mean of the
  loss and for \<open>val_loss < best_val_loss\<close>.  Every comparison with NaN is false.
\<close>

fun fl_div :: "fl \<Rightarrow> fl \<Rightarrow> fl" where
  "fl_div (Fin a) (Fin b) =
     (if b = 0 then (if a = 0 then NaN else if 0 < a then PInf else NInf) else Fin (a / b))"
| "fl_div NaN _ = NaN"
| "fl_div _ NaN = NaN"
| "fl_div (Fin a) PInf = Fin 0"
| "fl_div (Fin a) NInf = Fin 0"
| "fl_div PInf (Fin b) = (if 0 \<le> b then PInf else NInf)"
| "fl_div NInf (Fin b) = (if 0 \<le> b then NInf else PInf)"
| "fl_div PInf PInf = NaN"
| "fl_div PInf NInf = NaN"
| "fl_div NInf PInf = NaN"
| "fl_div NInf NInf = NaN"

fun fl_less :: "fl \<Rightarrow> fl \<Rightarrow> bool" where
  "fl_less (Fin a) (Fin b) = (a < b)"
| "fl_less NaN _ = False"
| "fl_less _ NaN = False"
| "fl_less (Fin a) PInf = True"
| "fl_less (Fin a) NInf = False"
| "fl_less PInf _ = False"
| "fl_less NInf NInf = False"
| "fl_less NInf _ = True"

text \<open>
  \<open>res, res_dict = v\<close>: only a tuple of two elements can be destructured;
  \<open>None\<close> and a zero-dimensional tensor are not iterable.
\<close>

fun unpack2 :: "pyval \<Rightarrow> error + pyval \<times> pyval" where
  "unpack2 (PyTuple [a, b]) = Inr (a, b)"
| "unpack2 (PyTuple _) = Inl ValueError"
| "unpack2 _ = Inl TypeError"

text \<open>
  \<open>os.path.join(a, b)\<close> for a relative \<open>b\<close>, and the decimal digits of a number
  for \<open>f"train_{n}"\<close>.
\<close>

definition path_join :: "path \<Rightarrow> path \<Rightarrow> path" where
  "path_join a b = (if a = [] \<or> last a = CHR ''/'' then a @ b else a @ ''/'' @ b)"

definition digit_char :: "nat \<Rightarrow> char" where
  "digit_char d = ''0123456789'' ! d"

fun decimal :: "nat \<Rightarrow> string" where
  "decimal n =
     (if 10 \<le> n then decimal (n div 10) @ [digit_char (n mod 10)] else [digit_char n])"

declare decimal.simps [simp del]

text \<open>
  The data set, the loss, the evaluation routine and the libraries are not part
  of the source files; what the program calls of them is a parameter, collected
  in a record.  \<open>load_myheterodata\<close> builds the data set from the data section of
  the configuration; \<open>new_model\<close> is the constructor of \<open>HeteroLightGCN\<close>;
  \<open>new_optimizer\<close>, \<open>new_scheduler\<close> and \<open>new_scaler\<close> construct the objects that
  \<open>create_optimizer_scheduler_scaler\<close> imports by name; \<open>listdir\<close> is the number
  of entries of a directory (\<open>None\<close> when it does not exist); \<open>zero_grad\<close>,
  \<open>backward_scaled\<close> and \<open>backward_plain\<close> are the effects of one optimization
  step on the model, the optimizer and the scaler.
\<close>

record 'a dataset =
  trainloader :: "'a list"
  valloader :: "'a list"
  metadata :: 'a

record 'a trainer =
  t_model :: 'a
  t_optimizer :: 'a
  t_scheduler :: "'a option"
  t_scaler :: "'a option"

record 'a env =
  load_myheterodata :: "'a \<Rightarrow> error + 'a dataset"
  new_model :: "'a \<Rightarrow> 'a \<Rightarrow> 'a"
  new_optimizer :: "'a \<Rightarrow> 'a \<Rightarrow> error + 'a"
  new_scheduler :: "'a \<Rightarrow> 'a \<Rightarrow> error + 'a"
  new_scaler :: 'a
  listdir :: "path \<Rightarrow> nat option"
  edge_label :: "'a \<Rightarrow> 'a"
  bce :: "pyval \<Rightarrow> 'a \<Rightarrow> error + fl"
  zero_grad :: "'a trainer \<Rightarrow> 'a trainer"
  backward_scaled :: "'a trainer \<Rightarrow> fl \<Rightarrow> 'a trainer"
  backward_plain :: "'a trainer \<Rightarrow> fl \<Rightarrow> 'a trainer"
  scheduler_step :: "'a \<Rightarrow> 'a"
  train_eval :: "'a \<Rightarrow> 'a list \<Rightarrow> error + fl \<times> fl \<times> (int \<times> fl) list"

definition create_optimizer_scheduler_scaler ::
  "'a env \<Rightarrow> 'a config \<Rightarrow> 'a \<Rightarrow> error + 'a \<times> 'a option \<times> 'a option" where
  "create_optimizer_scheduler_scaler env config_yaml model =
     (let training_config = cfg_train config_yaml in
      (case new_optimizer env (tc_optimizer training_config) model of Inl e \<Rightarrow> Inl e
       | Inr optimizer \<Rightarrow>
      (case (case tc_scheduler training_config of None \<Rightarrow> Inr None
             | Some d \<Rightarrow> (case new_scheduler env d optimizer of Inl e \<Rightarrow> Inl e
                          | Inr s \<Rightarrow> Inr (Some s)))
       of Inl e \<Rightarrow> Inl e
        | Inr scheduler \<Rightarrow>
      (let use_amp = (case tc_amp training_config of None \<Rightarrow> False | Some b \<Rightarrow> b);
           scaler = (if use_amp then Some (new_scaler env) else None)
       in Inr (optimizer, scheduler, scaler)))))"

text \<open>
  \<open>train_step\<close>.  The first argument is the \<open>forward\<close> method of the class of
  \<open>model\<close>, which \<open>model(batch)\<close> calls.  The loop over the batches carries the
  index \<open>i\<close> and the running mean \<open>tloss\<close>, \<open>None\<close> before the first batch.
\<close>

fun train_step_batches ::
  "('a \<Rightarrow> 'a \<Rightarrow> pyval) \<Rightarrow> 'a env \<Rightarrow> nat \<Rightarrow> fl option \<Rightarrow> 'a trainer \<Rightarrow> 'a list
     \<Rightarrow> error + fl option \<times> 'a trainer" where
  "train_step_batches fwd env i tloss tr [] = Inr (tloss, tr)"
| "train_step_batches fwd env i tloss tr (batch # rest) =
     (let tr0 = zero_grad env tr;
          label = edge_label env batch
      in
      (case unpack2 (fwd (t_model tr0) batch) of Inl e \<Rightarrow> Inl e | Inr (res, res_dict) \<Rightarrow>
      (case bce env res label of Inl e \<Rightarrow> Inl e | Inr loss_items \<Rightarrow>
      (let tloss' = (case tloss of None \<Rightarrow> loss_items
                     | Some t \<Rightarrow> fl_div (fl_add (fl_mul t (Fin (real i))) loss_items)
                                   (Fin (real i + 1)));
           tr' = (if t_scaler tr0 \<noteq> None then backward_scaled env tr0 loss_items
                  else backward_plain env tr0 loss_items)
       in train_step_batches fwd env (i + 1) (Some tloss') tr' rest))))"

definition train_step ::
  "('a \<Rightarrow> 'a \<Rightarrow> pyval) \<Rightarrow> 'a env \<Rightarrow> 'a trainer \<Rightarrow> 'a list \<Rightarrow> error + fl option \<times> 'a trainer" where
  "train_step fwd env tr loader = train_step_batches fwd env 0 None tr loader"

text \<open>
  The command line: \<open>--config\<close> is a string with default \<open>config.yaml\<close>,
  \<open>--checkpoint\<close> an optional string, and \<open>--resume\<close> has \<open>type=bool\<close>, so that
  its value is \<open>bool(s)\<close> of the string given: true for every non-empty string.
\<close>

record args =
  a_config :: path
  a_checkpoint :: "path option"
  a_resume :: bool

definition parse_args :: "string option \<Rightarrow> string option \<Rightarrow> string option \<Rightarrow> args" where
  "parse_args config_opt checkpoint_opt resume_opt =
     \<lparr>a_config = (case config_opt of None \<Rightarrow> ''config.yaml'' | Some p \<Rightarrow> p),
      a_checkpoint = checkpoint_opt,
      a_resume = (case resume_opt of None \<Rightarrow> False | Some s \<Rightarrow> s \<noteq> [])\<rparr>"

text \<open>
  What \<open>train\<close> holds when it enters the epoch loop.  \<open>r_writer\<close> is the log
  directory of the summary writer, \<open>r_epoch\<close> the variable \<open>epoch\<close>.
\<close>

record 'a run =
  r_config :: "'a config"
  r_dataset :: "'a dataset"
  r_trainer :: "'a trainer"
  r_writer :: path
  r_epoch :: int
  r_start_epoch :: int
  r_end_epoch :: int
  r_train_losses :: "fl list"
  r_val_losses :: "fl list"

text \<open>
  \<open>init(config_dir)\<close>.  The default is given to \<open>config_dir\<close>, and the
  configuration is then loaded from the literal \<open>"config.yaml"\<close>.  The log
  directory exists after \<open>os.makedirs\<close>.  The fields that \<open>init\<close> does not
  return keep the values that \<open>train\<close> gave them before the call.
\<close>

definition init :: "'a env \<Rightarrow> 'a world \<Rightarrow> path option \<Rightarrow> error + 'a run" where
  "init env w config_dir =
     (let config_dir = (case config_dir of None \<Rightarrow> ''config.yaml'' | Some d \<Rightarrow> d) in
      (case load_config w ''config.yaml'' of Inl e \<Rightarrow> Inl e | Inr config \<Rightarrow>
      (case load_myheterodata env (cfg_data config) of Inl e \<Rightarrow> Inl e | Inr dataset \<Rightarrow>
      (let model = new_model env (metadata dataset) (cfg_model config) in
      (case create_optimizer_scheduler_scaler env config model of Inl e \<Rightarrow> Inl e
       | Inr (optimizer, scheduler, scaler) \<Rightarrow>
      (let num_train = (case listdir env (cfg_logdir config) of None \<Rightarrow> 0 | Some n \<Rightarrow> n);
           writer = path_join (cfg_logdir config) (''train_'' @ decimal num_train);
           end_epoch = tc_epochs (cfg_train config)
       in Inr \<lparr>r_config = config, r_dataset = dataset,
                r_trainer = \<lparr>t_model = model, t_optimizer = optimizer,
                             t_scheduler = scheduler, t_scaler = scaler\<rparr>,
                r_writer = writer, r_epoch = 0, r_start_epoch = 0, r_end_epoch = end_epoch,
                r_train_losses = [], r_val_losses = []\<rparr>))))))"

definition init_from_checkpoint :: "'a env \<Rightarrow> 'a world \<Rightarrow> path \<Rightarrow> error + 'a run" where
  "init_from_checkpoint env w checkpoint =
     (case load_checkpoint w checkpoint of Inl e \<Rightarrow> Inl e | Inr ckpt \<Rightarrow>
     (let config = ck_config ckpt in
     (case load_myheterodata env (cfg_data config) of Inl e \<Rightarrow> Inl e | Inr dataset \<Rightarrow>
      Inr \<lparr>r_config = config, r_dataset = dataset,
           r_trainer = \<lparr>t_model = ck_model ckpt, t_optimizer = ck_optimizer ckpt,
                        t_scheduler = ck_scheduler ckpt, t_scaler = ck_scaler ckpt\<rparr>,
           r_writer = ck_log_dir ckpt, r_epoch = ck_epoch ckpt, r_start_epoch = 0,
           r_end_epoch = ck_end_epoch ckpt,
           r_train_losses = ck_train_losses ckpt, r_val_losses = ck_val_losses ckpt\<rparr>)))"

text \<open>
  \<open>train\<close> up to the loop.  With a checkpoint, \<open>init_from_checkpoint\<close> runs first;
  without \<open>--resume\<close> the optimizer, scheduler, scaler and writer are then made
  anew and the counters reset.  Without a checkpoint, \<open>init\<close> runs, and
  \<open>--resume\<close> then raises.  With \<open>--resume\<close>, the loop starts at \<open>epoch + 1\<close>.
\<close>

definition train_prepare :: "'a env \<Rightarrow> 'a world \<Rightarrow> args \<Rightarrow> error + 'a run" where
  "train_prepare env w args =
     (case a_checkpoint args of
        Some checkpoint \<Rightarrow>
          (case init_from_checkpoint env w checkpoint of Inl e \<Rightarrow> Inl e | Inr r \<Rightarrow>
           if \<not> a_resume args then
             (case create_optimizer_scheduler_scaler env (r_config r) (t_model (r_trainer r))
              of Inl e \<Rightarrow> Inl e
               | Inr (optimizer, scheduler, scaler) \<Rightarrow>
             (case listdir env (cfg_logdir (r_config r)) of None \<Rightarrow> Inl FileNotFound
               | Some n \<Rightarrow>
              Inr (r\<lparr>r_trainer := \<lparr>t_model = t_model (r_trainer r), t_optimizer = optimizer,
                                     t_scheduler = scheduler, t_scaler = scaler\<rparr>,
                      r_writer := path_join (cfg_logdir (r_config r))
                                    (''train_'' @ decimal n),
                      r_epoch := 0,
                      r_end_epoch := tc_epochs (cfg_train (r_config r)),
                      r_train_losses := [], r_val_losses := []\<rparr>)))
           else Inr (r\<lparr>r_start_epoch := r_epoch r + 1\<rparr>))
      | None \<Rightarrow>
          (case init env w (Some (a_config args)) of Inl e \<Rightarrow> Inl e | Inr r \<Rightarrow>
           if a_resume args then Inl ValueError else Inr r))"

text \<open>
  The state that the epoch loop updates, and one pass through its body.  The
  body returns the files as they are when it ends or raises.
\<close>

record 'a loop_state =
  ls_trainer :: "'a trainer"
  ls_best_val_loss :: fl
  ls_train_losses :: "fl list"
  ls_val_losses :: "fl list"

definition save_loss_plot :: "fl list \<Rightarrow> fl list \<Rightarrow> path \<Rightarrow> 'a world \<Rightarrow> 'a world" where
  "save_loss_plot train_losses val_losses file_path w =
     w\<lparr>plots := (plots w)(file_path \<mapsto> (train_losses, val_losses))\<rparr>"

definition add_scalar :: "path \<Rightarrow> tag \<Rightarrow> fl \<Rightarrow> int \<Rightarrow> 'a world \<Rightarrow> 'a world" where
  "add_scalar writer t v step w = w\<lparr>scalars := scalars w @ [(writer, t, v, step)]\<rparr>"

definition epoch_body ::
  "('a \<Rightarrow> 'a \<Rightarrow> pyval) \<Rightarrow> 'a env \<Rightarrow> 'a run \<Rightarrow> 'a loop_state \<Rightarrow> 'a world \<Rightarrow> int
     \<Rightarrow> 'a world \<times> (error + 'a loop_state)" where
  "epoch_body fwd env r st w epoch =
     (let last_model_path = path_join (r_writer r) ''last.pt'';
          best_model_path = path_join (r_writer r) ''best.pt'';
          loss_plot_path = path_join (r_writer r) ''loss_plot.png''
      in
      (case train_step fwd env (ls_trainer st) (trainloader (r_dataset r)) of
         Inl e \<Rightarrow> (w, Inl e)
       | Inr (train_loss, tr1) \<Rightarrow>
      (case t_scheduler tr1 of None \<Rightarrow> (w, Inl AttributeError) | Some sch \<Rightarrow>
      (let tr2 = tr1\<lparr>t_scheduler := Some (scheduler_step env sch)\<rparr> in
      (case train_eval env (t_model tr2) (valloader (r_dataset r)) of
         Inl e \<Rightarrow> (w, Inl e)
       | Inr (val_loss, val_acc, val_f1) \<Rightarrow>
      (case train_loss of None \<Rightarrow> (w, Inl AttributeError) | Some train_loss \<Rightarrow>
      (let train_losses = ls_train_losses st @ [train_loss];
           val_losses = ls_val_losses st @ [val_loss];
           w1 = save_checkpoint (t_model tr2) (t_optimizer tr2) (t_scheduler tr2)
                  (t_scaler tr2) epoch (r_end_epoch r) train_loss val_loss val_acc val_f1
                  last_model_path (r_config r) (r_writer r) train_losses val_losses w;
           improved = fl_less val_loss (ls_best_val_loss st);
           best_val_loss = (if improved then val_loss else ls_best_val_loss st);
           w2 = (if improved
                 then save_checkpoint (t_model tr2) (t_optimizer tr2) (t_scheduler tr2)
                        (t_scaler tr2) epoch (r_end_epoch r) train_loss val_loss val_acc
                        val_f1 best_model_path (r_config r) (r_writer r) train_losses
                        val_losses w1
                 else w1);
           w3 = save_loss_plot train_losses val_losses loss_plot_path w2;
           w4 = add_scalar (r_writer r) TrainLoss train_loss epoch w3;
           w5 = add_scalar (r_writer r) ValidationLoss val_loss epoch w4;
           w6 = add_scalar (r_writer r) ValidationAccuracy val_acc epoch w5;
           w7 = foldl (\<lambda>w' (label, f1_class).
                         add_scalar (r_writer r) (ValidationF1Class label) f1_class epoch w')
                  w6 val_f1
       in
       if val_f1 = [] then (w7, Inl ZeroDivisionError)
       else
         (add_scalar (r_writer r) ValidationF1Average
            (fl_div (fl_sum (map snd val_f1)) (Fin (real (length val_f1)))) epoch w7,
          Inr \<lparr>ls_trainer = tr2, ls_best_val_loss = best_val_loss,
               ls_train_losses = train_losses, ls_val_losses = val_losses\<rparr>))))))))"

fun epoch_loop ::
  "('a \<Rightarrow> 'a \<Rightarrow> pyval) \<Rightarrow> 'a env \<Rightarrow> 'a run \<Rightarrow> 'a loop_state \<Rightarrow> 'a world \<Rightarrow> int list
     \<Rightarrow> 'a world \<times> (error + 'a loop_state)" where
  "epoch_loop fwd env r st w [] = (w, Inr st)"
| "epoch_loop fwd env r st w (epoch # rest) =
     (case epoch_body fwd env r st w epoch of
        (w', Inl e) \<Rightarrow> (w', Inl e)
      | (w', Inr st') \<Rightarrow> epoch_loop fwd env r st' w' rest)"

text \<open>
  \<open>train(args)\<close>, for models of a class whose \<open>forward\<close> is \<open>fwd\<close>; and the
  program itself, whose models are instances of \<open>HeteroLightGCN\<close>.
\<close>

definition train ::
  "('a \<Rightarrow> 'a \<Rightarrow> pyval) \<Rightarrow> 'a env \<Rightarrow> args \<Rightarrow> 'a world \<Rightarrow> 'a world \<times> (error + 'a loop_state)" where
  "train fwd env args w =
     (case train_prepare env w args of Inl e \<Rightarrow> (w, Inl e) | Inr r \<Rightarrow>
      epoch_loop fwd env r
        \<lparr>ls_trainer = r_trainer r, ls_best_val_loss = PInf,
         ls_train_losses = r_train_losses r, ls_val_losses = r_val_losses r\<rparr>
        w [r_start_epoch r..r_end_epoch r - 1])"

definition main_train :: "'a env \<Rightarrow> args \<Rightarrow> 'a world \<Rightarrow> 'a world \<times> (error + 'a loop_state)" where
  "main_train env args w = train HeteroLightGCN_forward env args w"

section \<open>A concrete run\<close>

text \<open>
  Two configuration files that differ, a checkpoint written after the second
  epoch of a run of three, and collaborators that always succeed.
\<close>

definition config_A :: "string config" where
  "config_A =
     \<lparr>cfg_data = ''data A'', cfg_model = ''model A'',
      cfg_train = \<lparr>tc_optimizer = ''Adam'', tc_scheduler = Some ''StepLR'', tc_amp = None,
                   tc_epochs = 3\<rparr>,
      cfg_logdir = ''runs''\<rparr>"

definition config_B :: "string config" where
  "config_B =
     \<lparr>cfg_data = ''data B'', cfg_model = ''model B'',
      cfg_train = \<lparr>tc_optimizer = ''SGD'', tc_scheduler = Some ''StepLR'', tc_amp = None,
                   tc_epochs = 5\<rparr>,
      cfg_logdir = ''runs''\<rparr>"

definition example_ckpt :: "string checkpoint" where
  "example_ckpt =
     \<lparr>ck_model = ''loaded model'', ck_optimizer = ''loaded optimizer'',
      ck_scheduler = Some ''loaded scheduler'', ck_scaler = None,
      ck_epoch = 1, ck_end_epoch = 3, ck_train_loss = Fin 1, ck_val_loss = Fin 1,
      ck_val_acc = Fin 1, ck_val_f1 = [(0, Fin 1)], ck_config = config_A,
      ck_log_dir = ''runs/train_0'', ck_train_losses = [Fin 2, Fin 1],
      ck_val_losses = [Fin 2, Fin 1]\<rparr>"

definition example_world :: "string world" where
  "example_world =
     \<lparr>configs = [''config.yaml'' \<mapsto> config_A, ''other.yaml'' \<mapsto> config_B],
      ckpts = [''runs/train_0/last.pt'' \<mapsto> example_ckpt],
      saves = [], plots = Map.empty, scalars = []\<rparr>"

definition example_env :: "string env" where
  "example_env =
     \<lparr>load_myheterodata =
        (\<lambda>d. Inr \<lparr>trainloader = [''batch 0'', ''batch 1''], valloader = [''batch 2''],
                  metadata = ''metadata''\<rparr>),
      new_model = (\<lambda>m c. ''new model''),
      new_optimizer = (\<lambda>d m. Inr ''new optimizer''),
      new_scheduler = (\<lambda>d opt. Inr ''new scheduler''),
      new_scaler = ''new scaler'',
      listdir = (\<lambda>p. Some 1),
      edge_label = (\<lambda>b. ''label''),
      bce = (\<lambda>res l. Inr (Fin 1)),
      zero_grad = (\<lambda>t. t),
      backward_scaled = (\<lambda>t l. t),
      backward_plain = (\<lambda>t l. t),
      scheduler_step = (\<lambda>s. s),
      train_eval = (\<lambda>m v. Inr (Fin 1, Fin 1, [(0, Fin 1)]))\<rparr>"

section \<open>The normalization factors\<close>

lemma upd_map_upt:
  "k < n \<Longrightarrow> (map f [0..<n])[k := y] = map (f(k := y)) [0..<n]"
  by (rule nth_equalityI) (auto simp: nth_list_update)

lemma scatter_ones:
  "scatter_add fl_add (map (\<lambda>v. Fin (real (c v))) [0..<n]) idx (replicate (length idx) (Fin 1))
   = (if list_all (in_range n) idx
      then Inr (map (\<lambda>v. Fin (real (c v + count_list idx (int v)))) [0..<n])
      else Inl IndexOutOfRange)"
proof (induction idx arbitrary: c)
  case Nil
  then show ?case by simp
next
  case (Cons i idx)
  show ?case
  proof (cases "in_range n i")
    case False
    then show ?thesis by simp
  next
    case True
    then have k: "nat i < n" and i: "int (nat i) = i" by (auto simp: in_range_def)
    let ?c = "c(nat i := c (nat i) + 1)"
    have upd: "(map (\<lambda>v. Fin (real (c v))) [0..<n])[nat i := fl_add (map (\<lambda>v. Fin (real (c v))) [0..<n] ! nat i) (Fin 1)]
        = map (\<lambda>v. Fin (real (?c v))) [0..<n]"
      using k by (intro nth_equalityI) (auto simp: nth_list_update)
    have cnt: "\<And>v. ?c v + count_list idx (int v) = c v + count_list (i # idx) (int v)"
      using i by auto
    let ?out = "map (\<lambda>v. Fin (real (c v))) [0..<n]"
    have "scatter_add fl_add ?out (i # idx) (replicate (length (i # idx)) (Fin 1))
        = scatter_add fl_add (?out[nat i := fl_add (?out ! nat i) (Fin 1)]) idx
            (replicate (length idx) (Fin 1))"
      using True by simp
    also have "\<dots> = scatter_add fl_add (map (\<lambda>v. Fin (real (?c v))) [0..<n]) idx
            (replicate (length idx) (Fin 1))"
      by (simp only: upd)
    also have "\<dots> = (if list_all (in_range n) idx
        then Inr (map (\<lambda>v. Fin (real (?c v + count_list idx (int v)))) [0..<n])
        else Inl IndexOutOfRange)"
      by (rule Cons.IH)
    also have "\<dots> = (if list_all (in_range n) (i # idx)
        then Inr (map (\<lambda>v. Fin (real (c v + count_list (i # idx) (int v)))) [0..<n])
        else Inl IndexOutOfRange)"
      using True by (simp only: cnt list.pred_inject simp_thms)
    finally show ?thesis .
  qed
qed

lemma degree_eq:
  "degree index n = (if list_all (in_range n) index
      then Inr (map (\<lambda>v. Fin (real (count_list index (int v)))) [0..<n])
      else Inl IndexOutOfRange)"
  using scatter_ones [of "\<lambda>_. 0" n index] by (simp add: degree_def map_replicate_const)

lemma count_list_endpoint_degree: "count_list index v = endpoint_degree index v"
  by (induction index) (auto simp: endpoint_degree_def)

lemma degree_endpoint:
  "degree index n = (if list_all (in_range n) index
      then Inr (map (\<lambda>v. Fin (real (endpoint_degree index (int v)))) [0..<n])
      else Inl IndexOutOfRange)"
  by (simp add: degree_eq count_list_endpoint_degree)

lemma inv_sqrt_masked_counts:
  "inv_sqrt_masked (map (\<lambda>v. Fin (real (c v))) [0..<n])
   = map (\<lambda>v. if c v = 0 then Fin 0 else Fin (1 / sqrt (real (c v)))) [0..<n]"
  by (simp add: inv_sqrt_masked_def mask_inf_def)

lemma index_vec_in_range:
  "list_all (in_range (length t)) index \<Longrightarrow> index_vec t index = Inr (map (\<lambda>i. t ! nat i) index)"
  by (auto simp: index_vec_def in_range_def list_all_iff)

lemma endpoint_degree_pos: "v \<in> set index \<Longrightarrow> 0 < endpoint_degree index v"
  by (induction index) (auto simp: endpoint_degree_def)

lemma gather_inv_sqrt:
  assumes "list_all (in_range n) index" "set sel \<subseteq> set index"
  shows "index_vec (inv_sqrt_masked (map (\<lambda>v. Fin (real (endpoint_degree index (int v)))) [0..<n])) sel
     = Inr (map (\<lambda>i. Fin (1 / sqrt (real (endpoint_degree index i)))) sel)"
proof -
  have r: "list_all (in_range n) sel"
    using assms by (auto simp: list_all_iff)
  have "\<And>i. i \<in> set sel \<Longrightarrow>
      (map (\<lambda>v. if endpoint_degree index (int v) = 0 then Fin 0
                else Fin (1 / sqrt (real (endpoint_degree index (int v))))) [0..<n]) ! nat i
      = Fin (1 / sqrt (real (endpoint_degree index i)))"
  proof -
    fix i assume i: "i \<in> set sel"
    then have "in_range n i" using r by (simp add: list_all_iff)
    then have k: "nat i < n" "int (nat i) = i" by (auto simp: in_range_def)
    have "0 < endpoint_degree index i" using i assms(2) by (auto intro: endpoint_degree_pos)
    then show "(map (\<lambda>v. if endpoint_degree index (int v) = 0 then Fin 0
                else Fin (1 / sqrt (real (endpoint_degree index (int v))))) [0..<n]) ! nat i
      = Fin (1 / sqrt (real (endpoint_degree index i)))"
      using k by simp
  qed
  then show ?thesis
    using r by (simp add: inv_sqrt_masked_counts index_vec_in_range)
qed

lemma forward_norm_eq:
  "forward_norm nx ny ei =
     (if list_all (in_range nx) (row0 ei) \<and> list_all (in_range ny) (row1 ei)
      then Inr (map (\<lambda>e. Fin (edge_factor ei e)) ei)
      else Inl IndexOutOfRange)"
proof (cases "list_all (in_range nx) (row0 ei) \<and> list_all (in_range ny) (row1 ei)")
  case False
  then show ?thesis by (auto simp: forward_norm_def degree_endpoint Let_def)
next
  case True
  have m: "map2 fl_mul (map (\<lambda>i. Fin (1 / sqrt (real (endpoint_degree (row0 ei) i)))) (row0 ei))
                       (map (\<lambda>i. Fin (1 / sqrt (real (endpoint_degree (row1 ei) i)))) (row1 ei))
           = map (\<lambda>e. Fin (edge_factor ei e)) ei"
    by (rule nth_equalityI) (auto simp: row0_def row1_def edge_factor_def real_sqrt_mult)
  show ?thesis
    using True by (simp add: forward_norm_def degree_endpoint Let_def gather_inv_sqrt m)
qed



section \<open>Propagation and aggregation\<close>

lemma scatter_add_fold:
  "length src = length idx \<Longrightarrow>
   scatter_add add out idx src =
     (if list_all (in_range (length out)) idx
      then Inr (map (\<lambda>j. foldl add (out ! j)
                   (map snd (filter (\<lambda>p. fst p = int j) (zip idx src)))) [0..<length out])
      else Inl IndexOutOfRange)"
proof (induction idx arbitrary: out src)
  case Nil
  then show ?case by (simp add: map_nth)
next
  case (Cons i idx)
  then obtain s src' where src: "src = s # src'" and len: "length src' = length idx"
    by (cases src) auto
  show ?case
  proof (cases "in_range (length out) i")
    case False
    then show ?thesis by (simp add: src)
  next
    case True
    let ?out = "out[nat i := add (out ! nat i) s]"
    have k: "nat i < length out" using True by (auto simp: in_range_def)
    have eq: "\<And>j. j < length out \<Longrightarrow> (i = int j) = (j = nat i)"
      using True by (auto simp: in_range_def)
    have "scatter_add add out (i # idx) src = scatter_add add ?out idx src'"
      using True by (simp add: src)
    also have "\<dots> = (if list_all (in_range (length ?out)) idx
      then Inr (map (\<lambda>j. foldl add (?out ! j)
                   (map snd (filter (\<lambda>p. fst p = int j) (zip idx src')))) [0..<length ?out])
      else Inl IndexOutOfRange)"
      by (rule Cons.IH [OF len])
    also have "\<dots> = (if list_all (in_range (length out)) (i # idx)
      then Inr (map (\<lambda>j. foldl add (out ! j)
                   (map snd (filter (\<lambda>p. fst p = int j) (zip (i # idx) src)))) [0..<length out])
      else Inl IndexOutOfRange)"
      using True k by (auto simp: src eq nth_list_update)
    finally show ?thesis .
  qed
qed

lemma length_foldl_vec_add:
  "\<forall>v\<in>set vs. length v = length z \<Longrightarrow> length (foldl vec_add z vs) = length z"
  by (induction vs arbitrary: z) (auto simp: vec_add_def)

lemma foldl_vec_add_nth:
  "c < length z \<Longrightarrow> \<forall>v\<in>set vs. c < length v \<Longrightarrow>
   foldl vec_add z vs ! c = foldl fl_add (z ! c) (map (\<lambda>v. v ! c) vs)"
  by (induction vs arbitrary: z) (auto simp: vec_add_def)

lemma messages_column:
  assumes "length nrm = length ei" "\<forall>e\<in>set ei. c < length (R ! nat (fst e))"
  shows "map (\<lambda>v. v ! c) (map snd (filter (\<lambda>p. fst p = J)
            (zip (map snd ei) (map2 (\<lambda>w v. map (fl_mul w) v) nrm (map (\<lambda>i. R ! nat i) (map fst ei))))))
       = map (\<lambda>(w, e). fl_mul w (R ! nat (fst e) ! c)) (filter (\<lambda>(w, e). snd e = J) (zip nrm ei))"
  using assms by (induction nrm ei rule: list_induct2) auto

lemma propagate_eq:
  assumes "length nrm = length ei"
  shows "propagate ei (size0 xs, size0 xd) (xs, xd) nrm =
     (if list_all (in_range (size0 xs)) (row0 ei) \<and> list_all (in_range (size0 xd)) (row1 ei)
      then Inr \<lparr>width = width xs, rows = prop_rows ei xs (size0 xd) nrm\<rparr>
      else Inl IndexOutOfRange)"
proof -
  have len: "length (message (map (\<lambda>i. rows xs ! nat i) (row0 ei)) nrm) = length (row1 ei)"
    using assms by (simp add: message_def row0_def row1_def)
  show ?thesis
    by (simp add: propagate_def index_select_def scatter_add_fold [OF len] update_def
        prop_rows_def)
qed

lemma message_row_length:
  assumes wf: "wf_tensor2 xs"
    and rng: "list_all (in_range (size0 xs)) (row0 ei)"
  shows "\<forall>v\<in>set (message (map (\<lambda>i. rows xs ! nat i) (row0 ei)) nrm). length v = width xs"
proof
  fix v assume "v \<in> set (message (map (\<lambda>i. rows xs ! nat i) (row0 ei)) nrm)"
  then obtain w r where v: "v = map (fl_mul w) r"
    and "(w, r) \<in> set (zip nrm (map (\<lambda>i. rows xs ! nat i) (row0 ei)))"
    by (auto simp: message_def)
  then have "r \<in> set (map (\<lambda>i. rows xs ! nat i) (row0 ei))"
    by (auto dest: set_zip_rightD)
  then obtain i where r: "r = rows xs ! nat i" and i: "i \<in> set (row0 ei)"
    by auto
  from i rng have "nat i < length (rows xs)"
    by (auto simp: list_all_iff in_range_def size0_def)
  then show "length v = width xs"
    using wf by (auto simp: v r wf_tensor2_def list_all_iff)
qed

lemma prop_rows_length:
  assumes "wf_tensor2 xs" "list_all (in_range (size0 xs)) (row0 ei)" "j < n_dst"
  shows "length (prop_rows ei xs n_dst nrm ! j) = width xs"
proof -
  have "\<forall>v\<in>set (map snd (filter (\<lambda>p. fst p = int j)
               (zip (row1 ei) (message (map (\<lambda>i. rows xs ! nat i) (row0 ei)) nrm)))).
          length v = length (replicate (width xs) (Fin 0 :: fl))"
    using message_row_length [OF assms(1,2), of nrm] by (auto dest: set_zip_rightD)
  then show ?thesis
    using assms(3) by (simp add: prop_rows_def length_foldl_vec_add del: set_map)
qed

lemma prop_rows_column:
  assumes len: "length nrm = length ei"
    and wf: "wf_tensor2 xs"
    and rng: "list_all (in_range (size0 xs)) (row0 ei)"
    and j: "j < n_dst" and c: "c < width xs"
  shows "prop_rows ei xs n_dst nrm ! j ! c = aggregated nrm ei xs j c"
proof -
  have rowlen: "\<And>e. e \<in> set ei \<Longrightarrow> c < length (rows xs ! nat (fst e))"
  proof -
    fix e assume "e \<in> set ei"
    then have "in_range (size0 xs) (fst e)"
      using rng by (auto simp: list_all_iff row0_def)
    then have "nat (fst e) < length (rows xs)"
      by (auto simp: in_range_def size0_def)
    then show "c < length (rows xs ! nat (fst e))"
      using wf c by (auto simp: wf_tensor2_def list_all_iff)
  qed
  let ?msgs = "map snd (filter (\<lambda>p. fst p = int j)
               (zip (row1 ei) (message (map (\<lambda>i. rows xs ! nat i) (row0 ei)) nrm)))"
  have mlen: "\<forall>v\<in>set ?msgs. c < length v"
    using message_row_length [OF wf rng, of nrm] c by (auto dest: set_zip_rightD)
  have row: "prop_rows ei xs n_dst nrm ! j = foldl vec_add (replicate (width xs) (Fin 0)) ?msgs"
    using j by (simp add: prop_rows_def)
  have "prop_rows ei xs n_dst nrm ! j ! c
      = foldl fl_add (Fin 0) (map (\<lambda>v. v ! c) ?msgs)"
    using c mlen by (simp add: row foldl_vec_add_nth del: set_map)
  also have "map (\<lambda>v. v ! c) ?msgs
      = map (\<lambda>(w, e). fl_mul w (rows xs ! nat (fst e) ! c))
          (filter (\<lambda>(w, e). snd e = int j) (zip nrm ei))"
    unfolding message_def row0_def row1_def
    by (rule messages_column [OF len]) (simp add: rowlen)
  finally show ?thesis
    by (simp add: aggregated_def fl_sum_def)
qed

lemma row_flip0 [simp]: "row0 (flip0 ei) = row1 ei" "row1 (flip0 ei) = row0 ei"
  by (simp_all add: row0_def row1_def flip0_def comp_def)

lemma flip0_flip0 [simp]: "flip0 (flip0 ei) = ei"
  by (simp add: flip0_def comp_def)

lemma length_flip0 [simp]: "length (flip0 ei) = length ei"
  by (simp add: flip0_def)

lemma forward_eq:
  "forward x y ei =
     (if list_all (in_range (size0 x)) (row0 ei) \<and> list_all (in_range (size0 y)) (row1 ei)
      then Inr (\<lparr>width = width y, rows = prop_rows (flip0 ei) y (size0 x) (map (\<lambda>e. Fin (edge_factor ei e)) ei)\<rparr>,
                \<lparr>width = width x, rows = prop_rows ei x (size0 y) (map (\<lambda>e. Fin (edge_factor ei e)) ei)\<rparr>)
      else Inl IndexOutOfRange)"
  by (simp add: forward_def forward_norm_eq propagate_eq)

text \<open>
  Claim C2.  For well-formed feature matrices \<open>x\<close> and \<open>y\<close>, \<open>forward\<close> returns a
  pair \<open>(y2x, x2y)\<close> whenever the edge index stays inside the matrices, and in
  the pair it returns every destination node's row is, column by column, the sum
  over the edges arriving at the node of the edge's normalization weight times
  the source node's feature: \<open>x2y\<close> has a row per \<open>Y\<close> node and sums over \<open>X\<close>
  sources, \<open>y2x\<close> has a row per \<open>X\<close> node and sums over \<open>Y\<close> sources along the
  flipped edges.  The function takes the two matrices and the edge index only:
  there is no learned parameter.
\<close>

theorem forward_aggregates:
  assumes "wf_tensor2 x" "wf_tensor2 y"
  shows "(list_all (in_range (size0 x)) (row0 ei) \<and> list_all (in_range (size0 y)) (row1 ei)
            \<longrightarrow> (\<exists>r. forward x y ei = Inr r))
     \<and> (\<forall>y2x x2y. forward x y ei = Inr (y2x, x2y) \<longrightarrow>
          (\<exists>nrm. forward_norm (size0 x) (size0 y) ei = Inr nrm
             \<and> size0 x2y = size0 y \<and> width x2y = width x \<and> wf_tensor2 x2y
             \<and> size0 y2x = size0 x \<and> width y2x = width y \<and> wf_tensor2 y2x
             \<and> (\<forall>j<size0 y. \<forall>c<width x. rows x2y ! j ! c = aggregated nrm ei x j c)
             \<and> (\<forall>i<size0 x. \<forall>c<width y. rows y2x ! i ! c = aggregated nrm (flip0 ei) y i c)))"
proof (intro conjI allI impI)
  assume "list_all (in_range (size0 x)) (row0 ei) \<and> list_all (in_range (size0 y)) (row1 ei)"
  then show "\<exists>r. forward x y ei = Inr r"
    by (simp add: forward_eq)
next
  fix y2x x2y
  assume fw: "forward x y ei = Inr (y2x, x2y)"
  let ?nrm = "map (\<lambda>e. Fin (edge_factor ei e)) ei"
  have rng: "list_all (in_range (size0 x)) (row0 ei)" "list_all (in_range (size0 y)) (row1 ei)"
    using fw by (auto simp: forward_eq split: if_splits)
  have x2y: "x2y = \<lparr>width = width x, rows = prop_rows ei x (size0 y) ?nrm\<rparr>"
    and y2x: "y2x = \<lparr>width = width y, rows = prop_rows (flip0 ei) y (size0 x) ?nrm\<rparr>"
    using fw by (auto simp: forward_eq split: if_splits)
  have n: "forward_norm (size0 x) (size0 y) ei = Inr ?nrm"
    using rng by (simp add: forward_norm_eq)
  have len: "length ?nrm = length ei" "length ?nrm = length (flip0 ei)"
    by simp_all
  have rngf: "list_all (in_range (size0 y)) (row0 (flip0 ei))"
    using rng by simp
  have sz: "size0 x2y = size0 y" "size0 y2x = size0 x"
    by (simp_all add: x2y y2x size0_def prop_rows_def)
  have wfx: "wf_tensor2 x2y"
    unfolding wf_tensor2_def list_all_length
    using prop_rows_length [OF assms(1) rng(1)]
    by (simp add: x2y) (simp add: prop_rows_def)
  have wfy: "wf_tensor2 y2x"
    unfolding wf_tensor2_def list_all_length
    using prop_rows_length [OF assms(2) rngf]
    by (simp add: y2x) (simp add: prop_rows_def)
  have cx: "\<forall>j<size0 y. \<forall>c<width x. rows x2y ! j ! c = aggregated ?nrm ei x j c"
    using prop_rows_column [OF len(1) assms(1) rng(1)] by (simp add: x2y)
  have cy: "\<forall>i<size0 x. \<forall>c<width y. rows y2x ! i ! c = aggregated ?nrm (flip0 ei) y i c"
    using prop_rows_column [OF len(2) assms(2) rngf] by (simp add: y2x)
  show "\<exists>nrm. forward_norm (size0 x) (size0 y) ei = Inr nrm
             \<and> size0 x2y = size0 y \<and> width x2y = width x \<and> wf_tensor2 x2y
             \<and> size0 y2x = size0 x \<and> width y2x = width y \<and> wf_tensor2 y2x
             \<and> (\<forall>j<size0 y. \<forall>c<width x. rows x2y ! j ! c = aggregated nrm ei x j c)
             \<and> (\<forall>i<size0 x. \<forall>c<width y. rows y2x ! i ! c = aggregated nrm (flip0 ei) y i c)"
    using n sz wfx wfy cx cy by (intro exI [of _ ?nrm]) (simp add: x2y y2x)
qed

lemma endpoint_degree_flip:
  "edge_factor (flip0 ei) (b, a) = edge_factor ei (a, b)"
  by (simp add: edge_factor_def mult.commute)

lemma norm_flip0:
  "map (\<lambda>e. Fin (edge_factor (flip0 ei) e)) (flip0 ei) = map (\<lambda>e. Fin (edge_factor ei e)) ei"
  by (simp add: flip0_def comp_def endpoint_degree_flip [unfolded flip0_def])

text \<open>
  Claim C3.  Running \<open>forward\<close> with \<open>Y\<close> as the source side, \<open>X\<close> as the
  destination side and the flipped edge index gives the outputs of
  \<open>forward x y edge_index\<close> exchanged (and fails exactly when that fails): the
  \<open>y2x\<close> output of the one is the \<open>x2y\<close> output of the other, the per-edge
  normalization values being the same.
\<close>

theorem forward_flip_symmetric:
  "forward y x (flip0 ei) =
     (case forward x y ei of Inl e \<Rightarrow> Inl e | Inr (y2x, x2y) \<Rightarrow> Inr (x2y, y2x))"
  by (auto simp: forward_eq norm_flip0)

theorem forward_aggregates_witness:
  "\<exists>y2x x2y. forward \<lparr>width = 1, rows = [[Fin 1], [Fin 2]]\<rparr> \<lparr>width = 1, rows = [[Fin 3]]\<rparr>
        [(0, 0), (1, 0)] = Inr (y2x, x2y)
     \<and> size0 x2y = 1 \<and> size0 y2x = 2
     \<and> rows x2y ! 0 ! 0 = Fin (3 / sqrt 2) \<and> rows y2x ! 1 ! 0 = Fin (3 / sqrt 2)"
proof -
  let ?x = "\<lparr>width = 1, rows = [[Fin 1], [Fin 2]]\<rparr>"
  let ?y = "\<lparr>width = 1, rows = [[Fin 3]]\<rparr>"
  let ?ei = "[(0, 0), (1, 0)] :: edge_index"
  have wf: "wf_tensor2 ?x" "wf_tensor2 ?y"
    by (simp_all add: wf_tensor2_def)
  note T = forward_aggregates [OF wf, of ?ei]
  have rng: "list_all (in_range (size0 ?x)) (row0 ?ei) \<and> list_all (in_range (size0 ?y)) (row1 ?ei)"
    by (simp add: size0_def row0_def row1_def in_range_def)
  with T obtain y2x x2y where fw: "forward ?x ?y ?ei = Inr (y2x, x2y)"
    by fastforce
  with T obtain nrm where n: "forward_norm (size0 ?x) (size0 ?y) ?ei = Inr nrm"
    and sz: "size0 x2y = size0 ?y" "size0 y2x = size0 ?x"
    and cx: "\<forall>j<size0 ?y. \<forall>c<width ?x. rows x2y ! j ! c = aggregated nrm ?ei ?x j c"
    and cy: "\<forall>i<size0 ?x. \<forall>c<width ?y. rows y2x ! i ! c = aggregated nrm (flip0 ?ei) ?y i c"
    by blast
  have nrm: "nrm = [Fin (1 / sqrt 2), Fin (1 / sqrt 2)]"
    using n rng by (simp add: forward_norm_eq edge_factor_def endpoint_degree_def
        row0_def row1_def)
  from cx have "rows x2y ! 0 ! 0 = aggregated nrm ?ei ?x 0 0"
    by (simp add: size0_def)
  then have a: "rows x2y ! 0 ! 0 = Fin (3 / sqrt 2)"
    by (simp add: nrm aggregated_def fl_sum_def)
  from cy have "rows y2x ! 1 ! 0 = aggregated nrm (flip0 ?ei) ?y 1 0"
    by (simp add: size0_def)
  then have b: "rows y2x ! 1 ! 0 = Fin (3 / sqrt 2)"
    by (simp add: nrm aggregated_def fl_sum_def flip0_def)
  from fw sz a b show ?thesis
    by (simp add: size0_def)
qed

theorem forward_flip_symmetric_witness:
  "\<exists>y2x x2y. forward \<lparr>width = 1, rows = [[Fin 1], [Fin 2]]\<rparr> \<lparr>width = 1, rows = [[Fin 3]]\<rparr>
        [(0, 0), (1, 0)] = Inr (y2x, x2y)
     \<and> forward \<lparr>width = 1, rows = [[Fin 3]]\<rparr> \<lparr>width = 1, rows = [[Fin 1], [Fin 2]]\<rparr>
        (flip0 [(0, 0), (1, 0)]) = Inr (x2y, y2x)"
proof -
  let ?x = "\<lparr>width = 1, rows = [[Fin 1], [Fin 2]]\<rparr>"
  let ?y = "\<lparr>width = 1, rows = [[Fin 3]]\<rparr>"
  let ?ei = "[(0, 0), (1, 0)] :: edge_index"
  have "list_all (in_range (size0 ?x)) (row0 ?ei) \<and> list_all (in_range (size0 ?y)) (row1 ?ei)"
    by (simp add: size0_def row0_def row1_def in_range_def)
  then obtain y2x x2y where fw: "forward ?x ?y ?ei = Inr (y2x, x2y)"
    by (simp add: forward_eq)
  with forward_flip_symmetric [of ?y ?x ?ei] show ?thesis
    by simp
qed

section \<open>Removing the labelled edges\<close>

lemma not_any0_matches:
  "not_any0 (length edges) (matches_all edges labelled) = map (\<lambda>e. e \<notin> set labelled) edges"
  by (rule nth_equalityI)
     (auto simp: not_any0_def matches_all_def list_ex_iff prod_eq_iff)

lemma mask_select_pred:
  "mask_select (map P xs) t =
     (if length t = length xs then Inr (map snd (filter (\<lambda>(x, a). P x) (zip xs t)))
      else Inl IndexOutOfRange)"
proof (cases "length t = length xs")
  case False
  then show ?thesis by (auto simp: mask_select_def)
next
  case True
  then have "map snd (filter fst (zip (map P xs) t)) = map snd (filter (\<lambda>(x, a). P x) (zip xs t))"
    by (induction xs t rule: list_induct2') auto
  with True show ?thesis by (simp add: mask_select_def)
qed

lemma mask_select_self:
  "mask_select (map P xs) xs = Inr (filter P xs)"
proof -
  have "map snd (filter (\<lambda>(x, a). P x) (zip xs xs)) = filter P xs"
    by (induction xs) auto
  then show ?thesis by (simp add: mask_select_pred)
qed

lemma mask_optional_pred:
  "mask_optional (map (\<lambda>e. e \<notin> set labelled) edges) a =
     (if aligned (length edges) a then Inr (map_option (kept_attr edges labelled) a)
      else Inl IndexOutOfRange)"
  by (cases a) (auto simp: mask_optional_def mask_select_pred aligned_def kept_attr_def)

lemma mask_required_pred:
  "mask_required (map (\<lambda>e. e \<notin> set labelled) edges) a =
     (case a of None \<Rightarrow> Inl AttributeError
      | Some t \<Rightarrow> if length t = length edges then Inr (Some (kept_attr edges labelled t))
                  else Inl IndexOutOfRange)"
  by (cases a) (auto simp: mask_required_def mask_select_pred kept_attr_def)

text \<open>
  Claim C10.  When the per-edge attributes are aligned with the edge index
  (\<open>rating\<close> and \<open>e_id\<close> present, \<open>pos\<close> and \<open>weight\<close> present or not),
  \<open>remove_label_edges\<close> returns a batch; and in the batch it returns, the edge
  index of the \<open>(movie, ratedby, user)\<close> store holds exactly the edges that occur
  nowhere in \<open>edge_label_index\<close>, in their order, \<open>rating\<close>, \<open>e_id\<close>, \<open>pos\<close> and
  \<open>weight\<close> hold the entries of the kept edges (an absent \<open>pos\<close> or \<open>weight\<close> stays
  absent), and \<open>edge_label_index\<close>, every other attribute of the store and every
  other store of the batch are unchanged.
\<close>

theorem remove_label_edges_frame:
  fixes batch :: "('p, 'r, 'w, 'i, 's, 'b) hetero_batch_scheme"
  shows "((\<exists>r. rating (movie_ratedby_user batch) = Some r
                 \<and> length r = length (edge_index (movie_ratedby_user batch)))
          \<and> (\<exists>i. e_id (movie_ratedby_user batch) = Some i
                 \<and> length i = length (edge_index (movie_ratedby_user batch)))
          \<and> aligned (length (edge_index (movie_ratedby_user batch))) (pos (movie_ratedby_user batch))
          \<and> aligned (length (edge_index (movie_ratedby_user batch))) (weight (movie_ratedby_user batch))
          \<longrightarrow> (\<exists>batch'. remove_label_edges batch = Inr batch'))
     \<and> (\<forall>batch'. remove_label_edges batch = Inr batch' \<longrightarrow>
          edge_index (movie_ratedby_user batch')
            = filter (\<lambda>e. e \<notin> set (edge_label_index (movie_ratedby_user batch)))
                (edge_index (movie_ratedby_user batch))
        \<and> rating (movie_ratedby_user batch')
            = map_option (kept_attr (edge_index (movie_ratedby_user batch))
                            (edge_label_index (movie_ratedby_user batch)))
                (rating (movie_ratedby_user batch))
        \<and> e_id (movie_ratedby_user batch')
            = map_option (kept_attr (edge_index (movie_ratedby_user batch))
                            (edge_label_index (movie_ratedby_user batch)))
                (e_id (movie_ratedby_user batch))
        \<and> pos (movie_ratedby_user batch')
            = map_option (kept_attr (edge_index (movie_ratedby_user batch))
                            (edge_label_index (movie_ratedby_user batch)))
                (pos (movie_ratedby_user batch))
        \<and> weight (movie_ratedby_user batch')
            = map_option (kept_attr (edge_index (movie_ratedby_user batch))
                            (edge_label_index (movie_ratedby_user batch)))
                (weight (movie_ratedby_user batch))
        \<and> edge_label_index (movie_ratedby_user batch')
            = edge_label_index (movie_ratedby_user batch)
        \<and> edge_store.more (movie_ratedby_user batch')
            = edge_store.more (movie_ratedby_user batch)
        \<and> hetero_batch.more batch' = hetero_batch.more batch)"
  by (auto simp: remove_label_edges_def Let_def not_any0_matches mask_select_self
      mask_optional_pred mask_required_pred split: option.splits if_splits)

theorem remove_label_edges_frame_witness:
  "\<exists>batch'. remove_label_edges example_batch = Inr batch'
     \<and> edge_index (movie_ratedby_user batch') = [(0, 0), (1, 1)]
     \<and> rating (movie_ratedby_user batch') = Some [3, 5]
     \<and> e_id (movie_ratedby_user batch') = Some [10, 12]
     \<and> pos (movie_ratedby_user batch') = None
     \<and> weight (movie_ratedby_user batch') = Some [7, 9]
     \<and> edge_label_index (movie_ratedby_user batch') = [(1, 0), (5, 5)]
     \<and> edge_store.more (movie_ratedby_user batch') = ''edge_label''
     \<and> hetero_batch.more batch' = ''other stores''"
proof -
  note T = remove_label_edges_frame [of example_batch]
  have pre: "(\<exists>r. rating (movie_ratedby_user example_batch) = Some r
                 \<and> length r = length (edge_index (movie_ratedby_user example_batch)))
          \<and> (\<exists>i. e_id (movie_ratedby_user example_batch) = Some i
                 \<and> length i = length (edge_index (movie_ratedby_user example_batch)))
          \<and> aligned (length (edge_index (movie_ratedby_user example_batch)))
                (pos (movie_ratedby_user example_batch))
          \<and> aligned (length (edge_index (movie_ratedby_user example_batch)))
                (weight (movie_ratedby_user example_batch))"
    by (simp add: example_batch_def aligned_def)
  with T obtain batch' where b: "remove_label_edges example_batch = Inr batch'"
    by blast
  from T b show ?thesis
    by (simp add: example_batch_def kept_attr_def)
qed

section \<open>The forward pass of the model, checkpoints and the training step\<close>

text \<open>
  Claim C4.  For every model and every input batch, the forward pass of
  \<open>HeteroLightGCN\<close> returns nothing: the value \<open>None\<close>, not a mapping from node
  types to representations and no edge predictions.
\<close>

theorem HeteroLightGCN_forward_returns_nothing:
  "HeteroLightGCN_forward self data = PyNone"
  by (simp add: HeteroLightGCN_forward_def)


lemma train_step_batches_stub:
  "train_step_batches HeteroLightGCN_forward env i tloss tr (batch # rest) = Inl TypeError"
  by (simp add: HeteroLightGCN_forward_def Let_def)

text \<open>
  Claim C9.  With a \<open>HeteroLightGCN\<close> model, the destructuring of the model's
  result fails with a \<open>TypeError\<close>, because the result is \<open>None\<close>; so the loop of
  \<open>train_step\<close> fails at the model call of whichever batch it processes,
  whatever the loop index, the running loss and the state of the model and
  optimizer, and \<open>train_step\<close> fails on every non-empty loader.  On an empty
  loader it returns \<open>None\<close> without having run an iteration.
\<close>

theorem train_step_fails_at_model_call:
  "unpack2 (HeteroLightGCN_forward m batch) = Inl TypeError
   \<and> train_step_batches HeteroLightGCN_forward env i tloss tr (batch # rest) = Inl TypeError
   \<and> train_step HeteroLightGCN_forward env tr (batch # rest) = Inl TypeError
   \<and> train_step HeteroLightGCN_forward env tr [] = Inr (None, tr)"
  by (simp add: HeteroLightGCN_forward_def Let_def train_step_def)

section \<open>Starting a run\<close>

lemma init_ignores_config_dir: "init env w config_dir = init env w None"
  by (simp add: init_def Let_def)

lemma train_prepare_ignores_config:
  "train_prepare env w (parse_args (Some p) None resume_opt)
   = train_prepare env w (parse_args None None resume_opt)"
  by (simp add: train_prepare_def parse_args_def init_ignores_config_dir [of env w "Some _"]
      cong: sum.case_cong)

text \<open>
  Claim C5 fails on the code.  Started without a checkpoint and with
  \<open>--config other.yaml\<close>, the run uses the configuration read from
  \<open>config.yaml\<close>, which differs from the one in \<open>other.yaml\<close>: \<open>init\<close> gives the
  default to its argument and then loads the literal path.
\<close>

theorem config_argument_ignored:
  "(\<exists>r. train_prepare example_env example_world (parse_args (Some ''other.yaml'') None None)
          = Inr r \<and> r_config r = config_A)
   \<and> load_config example_world ''other.yaml'' = Inr config_B
   \<and> config_A \<noteq> config_B"
  by (simp add: train_prepare_def parse_args_def init_def load_config_def example_world_def
      example_env_def create_optimizer_scheduler_scaler_def Let_def config_A_def config_B_def)

text \<open>
  Claim C7.  Started with \<open>--resume true\<close> and a checkpoint path whose file and
  data set load, \<open>train\<close> enters the epoch loop with the epochs from the
  checkpoint's stored epoch plus one up to its end epoch, and with the model,
  optimizer, scheduler and scaler of the checkpoint; this holds whatever the
  constructors of the collaborators would build, so nothing is built anew.
\<close>

theorem resume_continues_from_checkpoint:
  assumes "load_checkpoint w checkpoint = Inr ckpt"
    and "load_myheterodata env (cfg_data (ck_config ckpt)) = Inr dataset"
  shows "\<exists>r. train_prepare env w (parse_args config_opt (Some checkpoint) (Some ''true'')) = Inr r
     \<and> r_start_epoch r = ck_epoch ckpt + 1
     \<and> t_optimizer (r_trainer r) = ck_optimizer ckpt
     \<and> t_scheduler (r_trainer r) = ck_scheduler ckpt
     \<and> train fwd env (parse_args config_opt (Some checkpoint) (Some ''true'')) w
         = epoch_loop fwd env r
             \<lparr>ls_trainer = \<lparr>t_model = ck_model ckpt, t_optimizer = ck_optimizer ckpt,
                             t_scheduler = ck_scheduler ckpt, t_scaler = ck_scaler ckpt\<rparr>,
              ls_best_val_loss = PInf, ls_train_losses = ck_train_losses ckpt,
              ls_val_losses = ck_val_losses ckpt\<rparr>
             w [ck_epoch ckpt + 1..ck_end_epoch ckpt - 1]"
  using assms
  by (simp add: train_def train_prepare_def parse_args_def init_from_checkpoint_def Let_def)

theorem resume_continues_from_checkpoint_witness:
  "\<exists>r. train_prepare example_env example_world
          (parse_args None (Some ''runs/train_0/last.pt'') (Some ''true'')) = Inr r
     \<and> r_start_epoch r = 2
     \<and> t_optimizer (r_trainer r) = ''loaded optimizer''
     \<and> t_scheduler (r_trainer r) = Some ''loaded scheduler''"
proof -
  have l: "load_checkpoint example_world ''runs/train_0/last.pt'' = Inr example_ckpt"
    by (simp add: load_checkpoint_def torch_load_def example_world_def)
  have d: "load_myheterodata example_env (cfg_data (ck_config example_ckpt))
      = Inr \<lparr>trainloader = [''batch 0'', ''batch 1''], valloader = [''batch 2''],
                  metadata = ''metadata''\<rparr>"
    by (simp add: example_env_def)
  from resume_continues_from_checkpoint [OF l d, of None HeteroLightGCN_forward]
  show ?thesis
    by (auto simp: example_ckpt_def)
qed

section \<open>The epoch loop\<close>

lemma train_step_stub:
  "train_step HeteroLightGCN_forward env tr loader
   = (case loader of [] \<Rightarrow> Inr (None, tr) | batch # rest \<Rightarrow> Inl TypeError)"
  by (cases loader) (simp_all add: train_step_def HeteroLightGCN_forward_def Let_def)

lemma epoch_body_stub:
  "\<exists>e. epoch_body HeteroLightGCN_forward env r st w epoch = (w, Inl e)"
  by (auto simp: epoch_body_def train_step_stub Let_def
      split: list.splits option.splits sum.splits prod.splits)

lemma epoch_loop_stub:
  "fst (epoch_loop HeteroLightGCN_forward env r st w epochs) = w
   \<and> (epochs \<noteq> [] \<longrightarrow> (\<exists>e. snd (epoch_loop HeteroLightGCN_forward env r st w epochs) = Inl e))"
proof (cases epochs)
  case Nil
  then show ?thesis by simp
next
  case (Cons epoch rest)
  obtain e where "epoch_body HeteroLightGCN_forward env r st w epoch = (w, Inl e)"
    using epoch_body_stub by blast
  then show ?thesis by (simp add: Cons)
qed

lemma main_train_writes_nothing: "fst (main_train env args w) = w"
  by (simp add: main_train_def train_def epoch_loop_stub split: sum.splits)

lemma main_train_first_epoch_fails:
  assumes "train_prepare env w args = Inr r" "r_start_epoch r < r_end_epoch r"
    and "trainloader (r_dataset r) \<noteq> []"
  shows "main_train env args w = (w, Inl TypeError)"
proof -
  from assms(2) obtain rest where
    u: "[r_start_epoch r..r_end_epoch r - 1] = r_start_epoch r # rest"
    by (simp add: upto_rec1)
  have "\<And>st. epoch_body HeteroLightGCN_forward env r st w (r_start_epoch r) = (w, Inl TypeError)"
    using assms(3)
    by (simp add: epoch_body_def train_step_stub Let_def split: list.splits)
  then show ?thesis
    by (simp add: main_train_def train_def assms(1) u)
qed

text \<open>
  Claim C8 fails on the code.  A run with the default arguments, a configuration
  of three epochs and a training loader of two batches stops in its first epoch
  with the \<open>TypeError\<close> of \<open>train_step\<close>: no file is written, and in
  particular no \<open>last.pt\<close>.
\<close>

theorem no_checkpoint_is_written:
  "main_train example_env (parse_args None None None) example_world
     = (example_world, Inl TypeError)
   \<and> ckpts example_world ''runs/train_1/last.pt'' = None
   \<and> saves example_world = []"
proof -
  let ?r = "\<lparr>r_config = config_A,
      r_dataset = \<lparr>trainloader = [''batch 0'', ''batch 1''], valloader = [''batch 2''],
                  metadata = ''metadata''\<rparr>,
      r_trainer = \<lparr>t_model = ''new model'', t_optimizer = ''new optimizer'',
                   t_scheduler = Some ''new scheduler'', t_scaler = None\<rparr>,
      r_writer = path_join ''runs'' (''train_'' @ decimal 1),
      r_epoch = 0, r_start_epoch = 0, r_end_epoch = 3,
      r_train_losses = [], r_val_losses = []\<rparr>"
  have p: "train_prepare example_env example_world (parse_args None None None) = Inr ?r"
    by (simp add: train_prepare_def parse_args_def init_def load_config_def example_world_def
      example_env_def create_optimizer_scheduler_scaler_def Let_def config_A_def)
  have "main_train example_env (parse_args None None None) example_world
     = (example_world, Inl TypeError)"
    by (rule main_train_first_epoch_fails [OF p]) simp_all
  then show ?thesis
    by (simp add: example_world_def)
qed

text \<open>
  The body of the loop does what the claim says once \<open>train_step\<close> and
  \<open>train_eval\<close> return: for a model class whose \<open>forward\<close> returns a pair, an
  epoch that ends has saved its checkpoint to \<open>last.pt\<close>, and then to \<open>best.pt\<close>
  exactly when its validation loss is below the best one so far.
\<close>

lemma saves_add_scalar [simp]: "saves (add_scalar wr t v step w) = saves w"
  by (simp add: add_scalar_def)

lemma saves_save_loss_plot [simp]: "saves (save_loss_plot a b p w) = saves w"
  by (simp add: save_loss_plot_def)

lemma saves_foldl_add_scalar [simp]:
  "saves (foldl (\<lambda>w' (label, f1_class). add_scalar wr (tg label) f1_class epoch w') w xs)
   = saves w"
  by (induction xs arbitrary: w) (auto simp: split_def)

lemma saves_save_checkpoint:
  "saves (save_checkpoint m opt sch sc epoch end_epoch trl vl va vf p c ld tls vls w)
   = saves w @ [(p, \<lparr>ck_model = m, ck_optimizer = opt, ck_scheduler = sch,
          ck_scaler = sc, ck_epoch = epoch, ck_end_epoch = end_epoch,
          ck_train_loss = trl, ck_val_loss = vl, ck_val_acc = va,
          ck_val_f1 = vf, ck_config = c, ck_log_dir = ld,
          ck_train_losses = tls, ck_val_losses = vls\<rparr>)]"
  by (simp add: save_checkpoint_def torch_save_def Let_def)

lemma epoch_body_saves:
  assumes "epoch_body fwd env r st w epoch = (w', Inr st')"
  shows "\<exists>ck. ck_epoch ck = epoch
     \<and> saves w' = saves w @ (path_join (r_writer r) ''last.pt'', ck)
          # (if fl_less (ck_val_loss ck) (ls_best_val_loss st)
             then [(path_join (r_writer r) ''best.pt'', ck)] else [])"
proof -
  from assms obtain train_loss tr1 sch val_loss val_acc val_f1 where
    ts: "train_step fwd env (ls_trainer st) (trainloader (r_dataset r)) = Inr (Some train_loss, tr1)"
    and sc: "t_scheduler tr1 = Some sch"
    and ev: "train_eval env (t_model tr1) (valloader (r_dataset r)) = Inr (val_loss, val_acc, val_f1)"
    and nz: "val_f1 \<noteq> []"
    by (auto simp: epoch_body_def Let_def
        split: sum.splits option.splits prod.splits if_splits)
  let ?ck = "\<lparr>ck_model = t_model tr1, ck_optimizer = t_optimizer tr1,
      ck_scheduler = Some (scheduler_step env sch), ck_scaler = t_scaler tr1,
      ck_epoch = epoch, ck_end_epoch = r_end_epoch r, ck_train_loss = train_loss,
      ck_val_loss = val_loss, ck_val_acc = val_acc, ck_val_f1 = val_f1,
      ck_config = r_config r, ck_log_dir = r_writer r,
      ck_train_losses = ls_train_losses st @ [train_loss],
      ck_val_losses = ls_val_losses st @ [val_loss]\<rparr>"
  from assms have "saves w' = saves w @ (path_join (r_writer r) ''last.pt'', ?ck)
          # (if fl_less val_loss (ls_best_val_loss st)
             then [(path_join (r_writer r) ''best.pt'', ?ck)] else [])"
    by (auto simp: epoch_body_def Let_def ts sc ev nz saves_save_checkpoint)
  then show ?thesis
    by (intro exI [of _ ?ck]) simp
qed

end
